theory Spec2Isabelle
  imports Complex_Main
begin

section \<open>Python values\<close>

text \<open>
  The module \<^verbatim>\<open>roboflow/util/prediction.py\<close> is dynamically typed: a prediction is a
  dictionary-backed object, and nothing stops a caller from handing \<^verbatim>\<open>None\<close>, a number or
  a plain dictionary to a group. The values are therefore one datatype. Dictionaries have
  string keys and keep insertion order (an association list with distinct keys). A
  \<^verbatim>\<open>Prediction\<close> instance is its one attribute \<^verbatim>\<open>json_prediction\<close>. Floats are read as
  real numbers (rounding and overflow are outside the model), booleans and object identities
  are not modelled, and a dictionary is a value: the in-place update that the constructor of
  \<^verbatim>\<open>Prediction\<close> performs on its argument is visible in the object built, not in the
  caller's variable.
\<close>

datatype pyval =
    PNone
  | PInt int
  | PFloat real
  | PStr string
  | PList "pyval list"
  | PDict "(string \<times> pyval) list"
  | PPrediction pyval

datatype error =
    TypeError
  | KeyError pyval
  | IndexError
  | ZeroDivisionError
  | AttributeError
  | PyException string

text \<open>Sequencing of two computations that may raise.\<close>

definition ebind :: "error + 'a \<Rightarrow> ('a \<Rightarrow> error + 'b) \<Rightarrow> error + 'b" where
  "ebind m f = (case m of Inl e \<Rightarrow> Inl e | Inr x \<Rightarrow> f x)"

text \<open>\<^verbatim>\<open>type(v).__name__\<close>\<close>

fun type_name :: "pyval \<Rightarrow> string" where
  "type_name PNone = ''NoneType''"
| "type_name (PInt _) = ''int''"
| "type_name (PFloat _) = ''float''"
| "type_name (PStr _) = ''str''"
| "type_name (PList _) = ''list''"
| "type_name (PDict _) = ''dict''"
| "type_name (PPrediction _) = ''Prediction''"

text \<open>
  \<^verbatim>\<open>a == b\<close>: numbers compare by value across \<^verbatim>\<open>int\<close> and \<^verbatim>\<open>float\<close>, lists
  elementwise, dictionaries key by key whatever the order. Two \<^verbatim>\<open>Prediction\<close> instances
  are compared through their mappings (Python compares their identities, which the model
  does not have); no theorem below compares two instances.
\<close>

fun py_eq :: "pyval \<Rightarrow> pyval \<Rightarrow> bool" where
  "py_eq PNone PNone = True"
| "py_eq (PInt i) (PInt j) = (i = j)"
| "py_eq (PInt i) (PFloat r) = (of_int i = r)"
| "py_eq (PFloat r) (PInt i) = (r = of_int i)"
| "py_eq (PFloat r) (PFloat s) = (r = s)"
| "py_eq (PStr a) (PStr b) = (a = b)"
| "py_eq (PList xs) (PList ys) = list_all2 py_eq xs ys"
| "py_eq (PDict a) (PDict b) =
     (length a = length b \<and>
      list_all (\<lambda>(k, u). case map_of b k of None \<Rightarrow> False | Some v \<Rightarrow> py_eq u v) a)"
| "py_eq (PPrediction a) (PPrediction b) = py_eq a b"
| "py_eq _ _ = False"

text \<open>\<^verbatim>\<open>d[k] = v\<close> on a dictionary: an existing key keeps its place, a new one goes last.\<close>

fun dict_set :: "string \<Rightarrow> pyval \<Rightarrow> (string \<times> pyval) list \<Rightarrow> (string \<times> pyval) list" where
  "dict_set k v [] = [(k, v)]"
| "dict_set k v ((k', v') # d) = (if k' = k then (k, v) # d else (k', v') # dict_set k v d)"

text \<open>Unhashable values cannot be looked up in a dictionary.\<close>

fun hashable :: "pyval \<Rightarrow> bool" where
  "hashable (PList _) = False"
| "hashable (PDict _) = False"
| "hashable _ = True"

text \<open>A sequence index: negative indices count from the end, out of range raises.\<close>

definition seq_index :: "'a list \<Rightarrow> int \<Rightarrow> error + 'a" where
  "seq_index xs i =
     (if 0 \<le> i \<and> i < int (length xs) then Inr (xs ! nat i)
      else if i < 0 \<and> - int (length xs) \<le> i then Inr (xs ! nat (int (length xs) + i))
      else Inl IndexError)"

text \<open>
  \<^verbatim>\<open>v[key]\<close>. On a \<^verbatim>\<open>Prediction\<close> this is \<^verbatim>\<open>Prediction.__getitem__\<close>, which returns
  \<^verbatim>\<open>self.json_prediction[key]\<close>.
\<close>

fun py_getitem :: "pyval \<Rightarrow> pyval \<Rightarrow> error + pyval" where
  "py_getitem (PDict d) (PStr k) =
     (case map_of d k of None \<Rightarrow> Inl (KeyError (PStr k)) | Some v \<Rightarrow> Inr v)"
| "py_getitem (PDict d) key = (if hashable key then Inl (KeyError key) else Inl TypeError)"
| "py_getitem (PList xs) (PInt i) = seq_index xs i"
| "py_getitem (PList xs) key = Inl TypeError"
| "py_getitem (PStr s) (PInt i) = map_sum id (\<lambda>c. PStr [c]) (seq_index s i)"
| "py_getitem (PStr s) key = Inl TypeError"
| "py_getitem (PPrediction json_prediction) key = py_getitem json_prediction key"
| "py_getitem PNone key = Inl TypeError"
| "py_getitem (PInt _) key = Inl TypeError"
| "py_getitem (PFloat _) key = Inl TypeError"

text \<open>
  \<^verbatim>\<open>v[k] = x\<close> with a string key, the only assignment the module makes. A list takes
  integer indices only, and the other values (a \<^verbatim>\<open>Prediction\<close> too: the class has no
  \<^verbatim>\<open>__setitem__\<close>) support no item assignment.
\<close>

fun py_setitem :: "pyval \<Rightarrow> string \<Rightarrow> pyval \<Rightarrow> error + pyval" where
  "py_setitem (PDict d) k x = Inr (PDict (dict_set k x d))"
| "py_setitem _ k x = Inl TypeError"

text \<open>
  \<^verbatim>\<open>for x in v\<close>. A dictionary yields its keys, a string its characters. A
  \<^verbatim>\<open>Prediction\<close> has \<^verbatim>\<open>__getitem__\<close> and no \<^verbatim>\<open>__iter__\<close>, so Python asks it for the
  items \<^verbatim>\<open>0\<close>, \<^verbatim>\<open>1\<close>, ... until one raises \<^verbatim>\<open>IndexError\<close> (\<open>getitem_iter\<close>, on what
  \<^verbatim>\<open>json_prediction\<close> holds): a dictionary raises \<^verbatim>\<open>KeyError\<close> at once.
\<close>

fun getitem_iter :: "pyval \<Rightarrow> error + pyval list" where
  "getitem_iter (PList xs) = Inr xs"
| "getitem_iter (PStr s) = Inr (map (\<lambda>c. PStr [c]) s)"
| "getitem_iter (PDict d) = Inl (KeyError (PInt 0))"
| "getitem_iter (PPrediction json_prediction) = getitem_iter json_prediction"
| "getitem_iter _ = Inl TypeError"

fun py_iter :: "pyval \<Rightarrow> error + pyval list" where
  "py_iter (PList xs) = Inr xs"
| "py_iter (PDict d) = Inr (map (\<lambda>(k, v). PStr k) d)"
| "py_iter (PStr s) = Inr (map (\<lambda>c. PStr [c]) s)"
| "py_iter (PPrediction json_prediction) = getitem_iter json_prediction"
| "py_iter _ = Inl TypeError"

text \<open>\<^verbatim>\<open>s + v\<close> for a string \<^verbatim>\<open>s\<close>: only a string can be appended.\<close>

fun str_add :: "string \<Rightarrow> pyval \<Rightarrow> error + string" where
  "str_add s (PStr t) = Inr (s @ t)"
| "str_add s _ = Inl TypeError"





section \<open>Configuration constants\<close>

text \<open>
  Modelled from the spec: \<^verbatim>\<open>OBJECT_DETECTION_MODEL\<close> of \<^verbatim>\<open>roboflow.config\<close>, a module
  that is not among the sources. The spec calls it the object-detection discriminant of a
  prediction type, one of the two values of an enumeration. The string is the library's; the
  theorems use only that it is a string other than the classification discriminant.
\<close>

definition OBJECT_DETECTION_MODEL :: pyval where
  "OBJECT_DETECTION_MODEL = PStr ''ObjectDetectionModel''"

text \<open>
  Modelled from the spec: \<^verbatim>\<open>CLASSIFICATION_MODEL\<close> of \<^verbatim>\<open>roboflow.config\<close>, the
  classification discriminant, the other value of the enumeration.
\<close>

definition CLASSIFICATION_MODEL :: pyval where
  "CLASSIFICATION_MODEL = PStr ''ClassificationModel''"

text \<open>
  Modelled from the spec: \<^verbatim>\<open>PREDICTION_OBJECT\<close> of \<^verbatim>\<open>roboflow.config\<close>. The spec says
  that group members are validated by comparing \<^verbatim>\<open>type(x).__name__\<close> with it and that
  every \<^verbatim>\<open>Prediction\<close> passes: it is the name of that class.
\<close>

definition PREDICTION_OBJECT :: string where
  "PREDICTION_OBJECT = ''Prediction''"

section \<open>Drawing one annotation\<close>




section \<open>Prediction\<close>

text \<open>
  \<^verbatim>\<open>Prediction.__init__\<close> writes the image path and the prediction type into the mapping
  it is given and keeps the mapping.
\<close>

definition Prediction_init :: "pyval \<Rightarrow> pyval \<Rightarrow> pyval \<Rightarrow> error + pyval" where
  "Prediction_init json_prediction image_path prediction_type =
     ebind (py_setitem json_prediction ''image_path'' image_path) (\<lambda>j1.
     ebind (py_setitem j1 ''prediction_type'' prediction_type) (\<lambda>j2.
       Inr (PPrediction j2)))"

text \<open>\<^verbatim>\<open>Prediction.json\<close> returns the attribute \<^verbatim>\<open>json_prediction\<close>.\<close>

fun Prediction_json :: "pyval \<Rightarrow> error + pyval" where
  "Prediction_json (PPrediction json_prediction) = Inr json_prediction"
| "Prediction_json _ = Inl AttributeError"

definition Prediction_save :: "pyval \<Rightarrow> pyval \<Rightarrow> error + unit" where
  "Prediction_save self path =
     ebind (py_getitem self (PStr ''prediction_type'')) (\<lambda>t.
       if py_eq t OBJECT_DETECTION_MODEL then Inr ()
       else ebind (py_getitem self (PStr ''prediction_type'')) (\<lambda>t'.
         if py_eq t' CLASSIFICATION_MODEL then Inr () else Inr ()))"

section \<open>PredictionGroup\<close>

record PredictionGroup =
  predictions :: "pyval list"
  base_image_path :: pyval
  base_prediction_type :: pyval

definition PredictionGroup_len :: "PredictionGroup \<Rightarrow> nat" where
  "PredictionGroup_len self = length (predictions self)"

definition PredictionGroup_getitem :: "PredictionGroup \<Rightarrow> pyval \<Rightarrow> error + pyval" where
  "PredictionGroup_getitem self index = py_getitem (PList (predictions self)) index"

text \<open>
  The texts of the two warnings, built by string concatenation: a part that is not a string
  raises instead.
\<close>

definition type_warning_text :: "pyval \<Rightarrow> pyval \<Rightarrow> error + string" where
  "type_warning_text prediction_type_check base_type =
     ebind (str_add ''This prediction is a different type ('' prediction_type_check) (\<lambda>s1.
     ebind (str_add (s1 @ '') than the prediction group base type ('') base_type) (\<lambda>s2.
       Inr (s2 @ '')'')))"

definition path_warning_text :: "pyval \<Rightarrow> pyval \<Rightarrow> error + string" where
  "path_warning_text image_path_check base_path =
     ebind (str_add ''This prediction has a different image path ('' image_path_check) (\<lambda>s1.
     ebind (str_add (s1 @ '') than the prediction group base image path ('') base_path) (\<lambda>s2.
       Inr (s2 @ '')'')))"

text \<open>
  \<^verbatim>\<open>PredictionGroup.__exception_check\<close>. An argument left out is \<^verbatim>\<open>None\<close>. The method
  reads the group and never assigns to it; what it does is raise, or call
  \<^verbatim>\<open>warnings.warn\<close>, recorded by appending the text to the list of warnings issued so
  far (each call is recorded; that Python's default filter prints a repeated warning once
  is outside the model). The source compares the type name with \<^verbatim>\<open>is not\<close>; both strings are interned
  identifiers, so this is the comparison of their texts.
\<close>

definition PredictionGroup_exception_check ::
  "PredictionGroup \<Rightarrow> pyval \<Rightarrow> pyval \<Rightarrow> pyval \<Rightarrow> string list \<Rightarrow> (error + unit) \<times> string list" where
  "PredictionGroup_exception_check self is_prediction_check image_path_check
       prediction_type_check ws =
     (if is_prediction_check \<noteq> PNone \<and> type_name is_prediction_check \<noteq> PREDICTION_OBJECT then
        (Inl (PyException (''Cannot add type '' @ type_name is_prediction_check
                @ '' to PredictionGroup'')), ws)
      else
        (case
           (if prediction_type_check \<noteq> PNone \<and> PredictionGroup_len self > 0
                \<and> \<not> py_eq prediction_type_check (base_prediction_type self) then
              (case type_warning_text prediction_type_check (base_prediction_type self) of
                 Inl e \<Rightarrow> (Inl e, ws)
               | Inr text \<Rightarrow> (Inr (), ws @ [text]))
            else (Inr (), ws))
         of
           (Inl e, ws1) \<Rightarrow> (Inl e, ws1)
         | (Inr u, ws1) \<Rightarrow>
             (if image_path_check \<noteq> PNone \<and> \<not> py_eq (base_image_path self) image_path_check then
                (case path_warning_text image_path_check (base_image_path self) of
                   Inl e \<Rightarrow> (Inl e, ws1)
                 | Inr text \<Rightarrow> (Inr (), ws1 @ [text]))
              else (Inr (), ws1))))"

text \<open>
  \<^verbatim>\<open>PredictionGroup.__init__\<close>: the loop over \<^verbatim>\<open>enumerate(args)\<close>, from the index and
  the group built so far. An exception leaves no group behind.
\<close>

fun PredictionGroup_init_loop ::
  "nat \<Rightarrow> pyval list \<Rightarrow> PredictionGroup \<Rightarrow> string list \<Rightarrow> (error + PredictionGroup) \<times> string list" where
  "PredictionGroup_init_loop index [] self ws = (Inr self, ws)"
| "PredictionGroup_init_loop index (prediction # rest) self ws =
     (case
        (if index = 0 then
           ebind (py_getitem prediction (PStr ''image_path'')) (\<lambda>image_path.
           ebind (py_getitem prediction (PStr ''prediction_type'')) (\<lambda>prediction_type.
             Inr (self\<lparr>base_image_path := image_path, base_prediction_type := prediction_type\<rparr>)))
         else Inr self)
      of
        Inl e \<Rightarrow> (Inl e, ws)
      | Inr self1 \<Rightarrow>
          (case PredictionGroup_exception_check self1 prediction PNone PNone ws of
             (Inl e, ws1) \<Rightarrow> (Inl e, ws1)
           | (Inr u, ws1) \<Rightarrow>
               PredictionGroup_init_loop (index + 1) rest
                 (self1\<lparr>predictions := predictions self1 @ [prediction]\<rparr>) ws1))"

definition PredictionGroup_init ::
  "pyval list \<Rightarrow> string list \<Rightarrow> (error + PredictionGroup) \<times> string list" where
  "PredictionGroup_init args ws =
     PredictionGroup_init_loop 0 args
       \<lparr>predictions = [], base_image_path = PStr '''', base_prediction_type = PStr ''''\<rparr> ws"

text \<open>
  \<^verbatim>\<open>PredictionGroup.add_prediction\<close> returns how the call ended, the group as the call
  left it (also when it raised) and the warnings issued.
\<close>

definition add_prediction ::
  "PredictionGroup \<Rightarrow> pyval \<Rightarrow> string list \<Rightarrow> (error + unit) \<times> PredictionGroup \<times> string list" where
  "add_prediction self prediction ws =
     (case py_getitem prediction (PStr ''prediction_type'') of
        Inl e \<Rightarrow> (Inl e, self, ws)
      | Inr prediction_type \<Rightarrow>
          (case PredictionGroup_exception_check self prediction PNone prediction_type ws of
             (Inl e, ws1) \<Rightarrow> (Inl e, self, ws1)
           | (Inr u, ws1) \<Rightarrow>
               if PredictionGroup_len self > 0 then
                 (case py_getitem prediction (PStr ''image_path'') of
                    Inl e \<Rightarrow> (Inl e, self, ws1)
                  | Inr image_path \<Rightarrow>
                      (case PredictionGroup_exception_check self PNone image_path PNone ws1 of
                         (Inl e, ws2) \<Rightarrow> (Inl e, self, ws2)
                       | (Inr u', ws2) \<Rightarrow>
                           (Inr (), self\<lparr>predictions := predictions self @ [prediction]\<rparr>, ws2)))
               else if PredictionGroup_len self = 0 then
                 (case py_getitem prediction (PStr ''image_path'') of
                    Inl e \<Rightarrow> (Inl e, self, ws1)
                  | Inr image_path \<Rightarrow>
                      (let self1 = self\<lparr>base_image_path := image_path\<rparr>
                       in (Inr (), self1\<lparr>predictions := predictions self1 @ [prediction]\<rparr>, ws1)))
               else (Inr (), self\<lparr>predictions := predictions self @ [prediction]\<rparr>, ws1)))"

text \<open>
  \<^verbatim>\<open>PredictionGroup.save\<close> evaluates \<^verbatim>\<open>self['prediction_type']\<close>, which for a group is
  \<^verbatim>\<open>PredictionGroup.__getitem__\<close>, an index into the list of members.
\<close>

definition PredictionGroup_save :: "PredictionGroup \<Rightarrow> pyval \<Rightarrow> error + unit" where
  "PredictionGroup_save self path =
     ebind (PredictionGroup_getitem self (PStr ''prediction_type'')) (\<lambda>t.
       if py_eq t OBJECT_DETECTION_MODEL then Inr ()
       else ebind (PredictionGroup_getitem self (PStr ''prediction_type'')) (\<lambda>t'.
         if py_eq t' CLASSIFICATION_MODEL then Inr () else Inr ()))"

text \<open>
  \<^verbatim>\<open>PredictionGroup.create_prediction_group\<close>: the loop that builds \<^verbatim>\<open>prediction_list\<close>,
  then the constructor on the list.
\<close>

fun prediction_list_loop :: "pyval list \<Rightarrow> pyval \<Rightarrow> pyval \<Rightarrow> pyval list \<Rightarrow> error + pyval list" where
  "prediction_list_loop [] image_path prediction_type prediction_list = Inr prediction_list"
| "prediction_list_loop (prediction # rest) image_path prediction_type prediction_list =
     ebind (Prediction_init prediction image_path prediction_type) (\<lambda>p.
       prediction_list_loop rest image_path prediction_type (prediction_list @ [p]))"

definition create_prediction_group ::
  "pyval \<Rightarrow> pyval \<Rightarrow> pyval \<Rightarrow> string list \<Rightarrow> (error + PredictionGroup) \<times> string list" where
  "create_prediction_group json_response image_path prediction_type ws =
     (case ebind (py_getitem json_response (PStr ''predictions'')) (\<lambda>response_predictions.
           ebind (py_iter response_predictions) (\<lambda>entries.
             prediction_list_loop entries image_path prediction_type []))
      of
        Inl e \<Rightarrow> (Inl e, ws)
      | Inr prediction_list \<Rightarrow> PredictionGroup_init prediction_list ws)"

section \<open>Auxiliary facts\<close>

text \<open>Lookup after an assignment, and what the constructor of \<^verbatim>\<open>Prediction\<close> builds.\<close>

lemma map_of_dict_set:
  "map_of (dict_set k v d) k' = (if k' = k then Some v else map_of d k')"
  by (induction d) auto

lemma Prediction_init_dict:
  "Prediction_init (PDict d) image_path prediction_type =
     Inr (PPrediction (PDict (dict_set ''prediction_type'' prediction_type
                                (dict_set ''image_path'' image_path d))))"
  by (simp add: Prediction_init_def ebind_def)

lemma Prediction_init_Inr:
  assumes "Prediction_init json_prediction image_path prediction_type = Inr p"
  obtains d where "json_prediction = PDict d"
    and "p = PPrediction (PDict (dict_set ''prediction_type'' prediction_type
                                (dict_set ''image_path'' image_path d)))"
  using assms by (cases json_prediction) (simp_all add: Prediction_init_def ebind_def)



lemma seq_index_nat:
  "i < length xs \<Longrightarrow> seq_index xs (int i) = Inr (xs ! i)"
  by (simp add: seq_index_def)



text \<open>The member check alone, as the constructor of the group calls it.\<close>

lemma exception_check_only_type:
  "PredictionGroup_exception_check self v PNone PNone ws =
     (if v \<noteq> PNone \<and> type_name v \<noteq> PREDICTION_OBJECT
      then (Inl (PyException (''Cannot add type '' @ type_name v @ '' to PredictionGroup'')), ws)
      else (Inr (), ws))"
  by (simp add: PredictionGroup_exception_check_def)

lemma exception_check_only_type_warnings:
  "PredictionGroup_exception_check self v PNone PNone ws = (r, ws') \<Longrightarrow> ws' = ws"
  by (auto simp: exception_check_only_type split: if_splits)

lemma init_loop_no_warning:
  "snd (PredictionGroup_init_loop index args self ws) = ws"
proof (induction index args self ws rule: PredictionGroup_init_loop.induct)
  case (1 index self ws)
  show ?case by simp
next
  case (2 index prediction rest self ws)
  show ?case
    using "2.IH"
    by (auto split: sum.splits prod.splits dest: exception_check_only_type_warnings)
qed

lemma init_loop_members:
  assumes "list_all (\<lambda>p. type_name p = PREDICTION_OBJECT) ps" and "index > 0"
  shows "PredictionGroup_init_loop index ps self ws =
           (Inr (self\<lparr>predictions := predictions self @ ps\<rparr>), ws)"
  using assms
  by (induction ps arbitrary: index self) (simp_all add: exception_check_only_type)

lemma PredictionGroup_init_tagged:
  "PredictionGroup_init
       (map (\<lambda>d. PPrediction (PDict (dict_set ''prediction_type'' prediction_type
                                (dict_set ''image_path'' image_path d)))) ds) ws =
     (Inr \<lparr>predictions = map (\<lambda>d. PPrediction (PDict (dict_set ''prediction_type'' prediction_type
                                (dict_set ''image_path'' image_path d)))) ds,
           base_image_path = (if ds = [] then PStr '''' else image_path),
           base_prediction_type = (if ds = [] then PStr '''' else prediction_type)\<rparr>, ws)"
proof (cases ds)
  case Nil
  then show ?thesis by (simp add: PredictionGroup_init_def)
next
  case (Cons d rest)
  have "list_all (\<lambda>p. type_name p = PREDICTION_OBJECT)
          (map (\<lambda>d. PPrediction (PDict (dict_set ''prediction_type'' prediction_type
                                (dict_set ''image_path'' image_path d)))) rest)"
    by (simp add: list_all_iff PREDICTION_OBJECT_def)
  from init_loop_members [OF this, of "Suc 0"] show ?thesis
    unfolding Cons
    by (simp add: PredictionGroup_init_def map_of_dict_set ebind_def exception_check_only_type
          PREDICTION_OBJECT_def)
qed

lemma prediction_list_loop_dicts:
  "prediction_list_loop (map PDict ds) image_path prediction_type acc =
     Inr (acc @ map (\<lambda>d. PPrediction (PDict (dict_set ''prediction_type'' prediction_type
                                (dict_set ''image_path'' image_path d)))) ds)"
  by (induction ds arbitrary: acc) (simp_all add: Prediction_init_dict ebind_def)

text \<open>The checks of \<open>add_prediction\<close> on a member whose type and path are strings.\<close>

lemma type_warning_text_strings:
  "type_warning_text (PStr t) (PStr b) =
     Inr (''This prediction is a different type ('' @ t
          @ '') than the prediction group base type ('' @ b @ '')'')"
  by (simp add: type_warning_text_def ebind_def)

lemma path_warning_text_strings:
  "path_warning_text (PStr i) (PStr b) =
     Inr (''This prediction has a different image path ('' @ i
          @ '') than the prediction group base image path ('' @ b @ '')'')"
  by (simp add: path_warning_text_def ebind_def)

lemma exception_check_member_type:
  assumes "PredictionGroup_len self > 0" and "base_prediction_type self = PStr b"
  shows "PredictionGroup_exception_check self (PPrediction j) PNone (PStr t) ws =
     (Inr (), ws @ (if t \<noteq> b
        then [''This prediction is a different type ('' @ t
                @ '') than the prediction group base type ('' @ b @ '')'']
        else []))"
  using assms
  by (simp add: PredictionGroup_exception_check_def PREDICTION_OBJECT_def
        type_warning_text_strings)

lemma exception_check_member_path:
  assumes "base_image_path self = PStr b"
  shows "PredictionGroup_exception_check self PNone (PStr i) PNone ws =
     (Inr (), ws @ (if b \<noteq> i
        then [''This prediction has a different image path ('' @ i
                @ '') than the prediction group base image path ('' @ b @ '')'']
        else []))"
  using assms
  by (simp add: PredictionGroup_exception_check_def path_warning_text_strings)

lemma add_prediction_base_type_frame:
  "base_prediction_type (fst (snd (add_prediction self v ws))) = base_prediction_type self"
  by (auto simp: add_prediction_def Let_def split: sum.splits prod.splits)

section \<open>The base prediction type of a group (claim C1)\<close>

text \<open>
  Claim C1: in every group \<^verbatim>\<open>base_prediction_type\<close> is the prediction type of the first
  member added, whether it came through the constructor or through \<open>add_prediction\<close> on
  an empty group. The constructor does set it (line 135). \<open>add_prediction\<close> does not: its
  branch for the empty group assigns \<^verbatim>\<open>base_image_path\<close> only (line 155), so no call of
  \<open>add_prediction\<close> ever changes \<^verbatim>\<open>base_prediction_type\<close>, and a group that starts
  empty keeps the empty string after its first member is added. The theorem states this
  frame property and evaluates \<^verbatim>\<open>PredictionGroup()\<close> followed by
  \<^verbatim>\<open>add_prediction(Prediction({}, 'img.jpg', OBJECT_DETECTION_MODEL))\<close>.
\<close>

theorem add_prediction_leaves_base_prediction_type:
  "base_prediction_type (fst (snd (add_prediction self v ws))) = base_prediction_type self
   \<and> PredictionGroup_init [] [] =
       (Inr \<lparr>predictions = [], base_image_path = PStr '''', base_prediction_type = PStr ''''\<rparr>, [])
   \<and> Prediction_init (PDict []) (PStr ''img.jpg'') OBJECT_DETECTION_MODEL =
       Inr (PPrediction (PDict [(''image_path'', PStr ''img.jpg''),
                                (''prediction_type'', OBJECT_DETECTION_MODEL)]))
   \<and> add_prediction
         \<lparr>predictions = [], base_image_path = PStr '''', base_prediction_type = PStr ''''\<rparr>
         (PPrediction (PDict [(''image_path'', PStr ''img.jpg''),
                              (''prediction_type'', OBJECT_DETECTION_MODEL)])) [] =
       (Inr (),
        \<lparr>predictions = [PPrediction (PDict [(''image_path'', PStr ''img.jpg''),
                                            (''prediction_type'', OBJECT_DETECTION_MODEL)])],
         base_image_path = PStr ''img.jpg'', base_prediction_type = PStr ''''\<rparr>,
        [])"
proof (intro conjI)
  show "base_prediction_type (fst (snd (add_prediction self v ws))) = base_prediction_type self"
    by (rule add_prediction_base_type_frame)
qed (simp_all add: PredictionGroup_init_def Prediction_init_def ebind_def add_prediction_def
       PredictionGroup_exception_check_def PredictionGroup_len_def PREDICTION_OBJECT_def)

section \<open>Values that are not predictions (claim C2)\<close>

text \<open>
  Claim C2: a value that is not a \<^verbatim>\<open>Prediction\<close> is rejected with an error, by the
  constructor of the group and by \<open>add_prediction\<close>, and is not appended. The member check
  of \<^verbatim>\<open>__exception_check\<close> is skipped when its argument is \<^verbatim>\<open>None\<close> (line 201), which
  the method uses for "argument not given"; the constructor subscripts only its first
  argument (line 133), so \<^verbatim>\<open>None\<close> in any later position passes unchecked and becomes a
  member. The theorem evaluates \<^verbatim>\<open>PredictionGroup(p, None)\<close> for
  \<^verbatim>\<open>p = Prediction({}, 'img.jpg', OBJECT_DETECTION_MODEL)\<close>: no error, and \<^verbatim>\<open>None\<close> is
  the second member.
\<close>

theorem PredictionGroup_init_accepts_None:
  "PredictionGroup_init
      [PPrediction (PDict [(''image_path'', PStr ''img.jpg''),
                           (''prediction_type'', OBJECT_DETECTION_MODEL)]),
       PNone] [] =
     (Inr \<lparr>predictions =
             [PPrediction (PDict [(''image_path'', PStr ''img.jpg''),
                                  (''prediction_type'', OBJECT_DETECTION_MODEL)]),
              PNone],
           base_image_path = PStr ''img.jpg'',
           base_prediction_type = OBJECT_DETECTION_MODEL\<rparr>,
      [])"
  by (simp add: PredictionGroup_init_def ebind_def exception_check_only_type PREDICTION_OBJECT_def)

section \<open>Saving a group (claim C3)\<close>

text \<open>
  Claim C3: \<^verbatim>\<open>PredictionGroup.save\<close> is a stub like \<^verbatim>\<open>Prediction.save\<close>: it does nothing
  and raises nothing, for every group. The body was written like that of
  \<^verbatim>\<open>Prediction.save\<close>, but on a group \<^verbatim>\<open>self['prediction_type']\<close> indexes the list of
  members with a string, which raises \<^verbatim>\<open>TypeError\<close> whatever the group holds. The theorem
  states that every call raises, and that \<^verbatim>\<open>Prediction.save\<close> on a constructed prediction
  returns normally.
\<close>

theorem PredictionGroup_save_raises:
  "PredictionGroup_save self path = Inl TypeError
   \<and> Prediction_save
        (PPrediction (PDict (dict_set ''prediction_type'' prediction_type
                               (dict_set ''image_path'' image_path d)))) path' = Inr ()"
  by (simp add: PredictionGroup_save_def PredictionGroup_getitem_def Prediction_save_def
        ebind_def map_of_dict_set)

section \<open>Warnings at construction (claim C4)\<close>

text \<open>
  Claim C4: constructing a group from predictions of different types, or of different
  image paths, issues a warning. The constructor calls \<^verbatim>\<open>__exception_check\<close> with the
  member check only (line 137); the two comparisons that warn are made by
  \<open>add_prediction\<close> alone. So the constructor never issues a warning, whatever it is given:
  the list of warnings after the call is the list before it. The theorem states this and
  evaluates the constructor on an object-detection prediction of \<^verbatim>\<open>img.jpg\<close> followed by
  a classification prediction of \<^verbatim>\<open>other.jpg\<close>.
\<close>

theorem PredictionGroup_init_never_warns:
  "snd (PredictionGroup_init args ws) = ws
   \<and> PredictionGroup_init
        [PPrediction (PDict [(''image_path'', PStr ''img.jpg''),
                             (''prediction_type'', OBJECT_DETECTION_MODEL)]),
         PPrediction (PDict [(''image_path'', PStr ''other.jpg''),
                             (''prediction_type'', CLASSIFICATION_MODEL)])] [] =
       (Inr \<lparr>predictions =
               [PPrediction (PDict [(''image_path'', PStr ''img.jpg''),
                                    (''prediction_type'', OBJECT_DETECTION_MODEL)]),
                PPrediction (PDict [(''image_path'', PStr ''other.jpg''),
                                    (''prediction_type'', CLASSIFICATION_MODEL)])],
             base_image_path = PStr ''img.jpg'',
             base_prediction_type = OBJECT_DETECTION_MODEL\<rparr>,
        [])"
  by (simp add: PredictionGroup_init_def init_loop_no_warning ebind_def
        exception_check_only_type PREDICTION_OBJECT_def)

section \<open>The factory (claim C5)\<close>

text \<open>
  Claim C5: for a response whose \<^verbatim>\<open>'predictions'\<close> entry is a list of field mappings,
  \<open>create_prediction_group\<close> returns a group (no error, no warning) with as many members as
  the list has entries; member \<open>i\<close> is the prediction built from entry \<open>i\<close>, so its
  \<^verbatim>\<open>image_path\<close> and \<^verbatim>\<open>prediction_type\<close> are the ones given and every other key reads as
  in the entry.
\<close>

theorem create_prediction_group_in_order:
  assumes "py_getitem json_response (PStr ''predictions'') = Inr (PList (map PDict ds))"
  shows "\<exists>g. create_prediction_group json_response image_path prediction_type ws = (Inr g, ws)
      \<and> PredictionGroup_len g = length ds
      \<and> (\<forall>i<length ds. \<exists>p.
            PredictionGroup_getitem g (PInt (int i)) = Inr p
          \<and> Prediction_init (PDict (ds ! i)) image_path prediction_type = Inr p
          \<and> py_getitem p (PStr ''image_path'') = Inr image_path
          \<and> py_getitem p (PStr ''prediction_type'') = Inr prediction_type
          \<and> (\<forall>k. k \<noteq> ''image_path'' \<and> k \<noteq> ''prediction_type'' \<longrightarrow>
                 py_getitem p (PStr k) = py_getitem (PDict (ds ! i)) (PStr k)))"
proof -
  let ?tag = "\<lambda>d. PPrediction (PDict (dict_set ''prediction_type'' prediction_type
                                (dict_set ''image_path'' image_path d)))"
  let ?g = "\<lparr>predictions = map ?tag ds,
            base_image_path = (if ds = [] then PStr '''' else image_path),
            base_prediction_type = (if ds = [] then PStr '''' else prediction_type)\<rparr>"
  have run: "create_prediction_group json_response image_path prediction_type ws = (Inr ?g, ws)"
    by (simp add: create_prediction_group_def assms ebind_def
          prediction_list_loop_dicts [where acc = "[]", simplified, unfolded ebind_def]
          PredictionGroup_init_tagged)
  have len: "PredictionGroup_len ?g = length ds"
    by (simp add: PredictionGroup_len_def)
  have item: "\<exists>p. PredictionGroup_getitem ?g (PInt (int i)) = Inr p
          \<and> Prediction_init (PDict (ds ! i)) image_path prediction_type = Inr p
          \<and> py_getitem p (PStr ''image_path'') = Inr image_path
          \<and> py_getitem p (PStr ''prediction_type'') = Inr prediction_type
          \<and> (\<forall>k. k \<noteq> ''image_path'' \<and> k \<noteq> ''prediction_type'' \<longrightarrow>
                 py_getitem p (PStr k) = py_getitem (PDict (ds ! i)) (PStr k))"
    if "i < length ds" for i
    using that
    by (simp add: PredictionGroup_getitem_def seq_index_nat Prediction_init_dict map_of_dict_set)
  from run len item show ?thesis by blast
qed

text \<open>
  The theorem at the response \<^verbatim>\<open>{'predictions': [{'top': 'cat', 'confidence': '0.9'}]}\<close>:
  a group of length 1 whose member has \<^verbatim>\<open>top\<close> equal to \<^verbatim>\<open>'cat'\<close>.
\<close>

theorem create_prediction_group_in_order_witness:
  "py_getitem (PDict [(''predictions'',
        PList [PDict [(''top'', PStr ''cat''), (''confidence'', PStr ''0.9'')]])])
      (PStr ''predictions'') =
     Inr (PList (map PDict [[(''top'', PStr ''cat''), (''confidence'', PStr ''0.9'')]]))
   \<and> (\<exists>g. create_prediction_group
             (PDict [(''predictions'',
                PList [PDict [(''top'', PStr ''cat''), (''confidence'', PStr ''0.9'')]])])
             (PStr ''img.jpg'') CLASSIFICATION_MODEL [] = (Inr g, [])
          \<and> PredictionGroup_len g = 1
          \<and> (\<exists>p. PredictionGroup_getitem g (PInt 0) = Inr p
                \<and> py_getitem p (PStr ''image_path'') = Inr (PStr ''img.jpg'')
                \<and> py_getitem p (PStr ''prediction_type'') = Inr CLASSIFICATION_MODEL
                \<and> py_getitem p (PStr ''top'') = Inr (PStr ''cat'')))"
proof -
  have h: "py_getitem (PDict [(''predictions'',
        PList [PDict [(''top'', PStr ''cat''), (''confidence'', PStr ''0.9'')]])])
      (PStr ''predictions'') =
     Inr (PList (map PDict [[(''top'', PStr ''cat''), (''confidence'', PStr ''0.9'')]]))"
    by simp
  from create_prediction_group_in_order
         [OF h, of "PStr ''img.jpg''" CLASSIFICATION_MODEL "[]"]
  obtain g where
    run: "create_prediction_group
             (PDict [(''predictions'',
                PList [PDict [(''top'', PStr ''cat''), (''confidence'', PStr ''0.9'')]])])
             (PStr ''img.jpg'') CLASSIFICATION_MODEL [] = (Inr g, [])"
    and len: "PredictionGroup_len g = length [[(''top'', PStr ''cat''), (''confidence'', PStr ''0.9'')]]"
    and items: "\<forall>i<length [[(''top'', PStr ''cat''), (''confidence'', PStr ''0.9'')]]. \<exists>p.
            PredictionGroup_getitem g (PInt (int i)) = Inr p
          \<and> Prediction_init
               (PDict ([[(''top'', PStr ''cat''), (''confidence'', PStr ''0.9'')]] ! i))
               (PStr ''img.jpg'') CLASSIFICATION_MODEL = Inr p
          \<and> py_getitem p (PStr ''image_path'') = Inr (PStr ''img.jpg'')
          \<and> py_getitem p (PStr ''prediction_type'') = Inr CLASSIFICATION_MODEL
          \<and> (\<forall>k. k \<noteq> ''image_path'' \<and> k \<noteq> ''prediction_type'' \<longrightarrow>
                 py_getitem p (PStr k) =
                 py_getitem
                   (PDict ([[(''top'', PStr ''cat''), (''confidence'', PStr ''0.9'')]] ! i))
                   (PStr k))"
    by blast
  from items [rule_format, of 0] obtain p where
    p0: "PredictionGroup_getitem g (PInt 0) = Inr p"
    and p1: "py_getitem p (PStr ''image_path'') = Inr (PStr ''img.jpg'')"
    and p2: "py_getitem p (PStr ''prediction_type'') = Inr CLASSIFICATION_MODEL"
    and p3: "\<forall>k. k \<noteq> ''image_path'' \<and> k \<noteq> ''prediction_type'' \<longrightarrow>
                 py_getitem p (PStr k) =
                 py_getitem (PDict [(''top'', PStr ''cat''), (''confidence'', PStr ''0.9'')])
                   (PStr k)"
    by auto
  from p3 [rule_format, of "''top''"]
  have p4: "py_getitem p (PStr ''top'') = Inr (PStr ''cat'')" by simp
  from len have len1: "PredictionGroup_len g = 1" by simp
  from h run len1 p0 p1 p2 p4 show ?thesis by blast
qed

section \<open>Adding a prediction of another type (claim C6)\<close>

text \<open>
  Claim C6: adding to a non-empty group a prediction whose type differs from the group's
  base type succeeds, issues a warning, and makes the group one longer. Prediction types and
  image paths are strings, as in the data model: the prediction is constructed with a string
  path and a string type, and the group's base path and base type are strings. The call
  returns normally, the prediction is the new last member, the warning about the type is
  issued (followed by the one about the path when the paths differ too).
\<close>

theorem add_prediction_other_type:
  assumes "Prediction_init json_prediction (PStr image_path) (PStr prediction_type) = Inr p"
    and "PredictionGroup_len self > 0"
    and "base_prediction_type self = PStr base_type"
    and "base_image_path self = PStr base_path"
    and "prediction_type \<noteq> base_type"
  shows "add_prediction self p ws =
      (Inr (), self\<lparr>predictions := predictions self @ [p]\<rparr>,
       ws @ [''This prediction is a different type ('' @ prediction_type
               @ '') than the prediction group base type ('' @ base_type @ '')'']
          @ (if base_path \<noteq> image_path
             then [''This prediction has a different image path ('' @ image_path
                     @ '') than the prediction group base image path ('' @ base_path @ '')'']
             else []))
    \<and> PredictionGroup_len (fst (snd (add_prediction self p ws))) = PredictionGroup_len self + 1"
proof -
  from assms(1) obtain d where
    p: "p = PPrediction (PDict (dict_set ''prediction_type'' (PStr prediction_type)
                                  (dict_set ''image_path'' (PStr image_path) d)))"
    by (rule Prediction_init_Inr)
  have t: "py_getitem p (PStr ''prediction_type'') = Inr (PStr prediction_type)"
    and i: "py_getitem p (PStr ''image_path'') = Inr (PStr image_path)"
    unfolding p by (simp_all add: map_of_dict_set)
  have c1: "PredictionGroup_exception_check self p PNone (PStr prediction_type) ws =
      (Inr (), ws @ [''This prediction is a different type ('' @ prediction_type
               @ '') than the prediction group base type ('' @ base_type @ '')''])"
    unfolding p using exception_check_member_type [OF assms(2,3)] assms(5) by simp
  have eq: "add_prediction self p ws =
      (Inr (), self\<lparr>predictions := predictions self @ [p]\<rparr>,
       ws @ [''This prediction is a different type ('' @ prediction_type
               @ '') than the prediction group base type ('' @ base_type @ '')'']
          @ (if base_path \<noteq> image_path
             then [''This prediction has a different image path ('' @ image_path
                     @ '') than the prediction group base image path ('' @ base_path @ '')'']
             else []))"
    using assms(2)
    by (simp add: add_prediction_def t i c1 exception_check_member_path [OF assms(4)])
  show ?thesis
    unfolding eq by (simp add: PredictionGroup_len_def)
qed

text \<open>
  The theorem on a group holding one object-detection prediction of \<^verbatim>\<open>img.jpg\<close>, for a
  classification prediction of \<^verbatim>\<open>other.jpg\<close>.
\<close>

theorem add_prediction_other_type_witness:
  "Prediction_init (PDict [(''top'', PStr ''cat''), (''confidence'', PStr ''0.9'')])
       (PStr ''other.jpg'') (PStr ''ClassificationModel'') =
     Inr (PPrediction (PDict [(''top'', PStr ''cat''), (''confidence'', PStr ''0.9''),
            (''image_path'', PStr ''other.jpg''),
            (''prediction_type'', PStr ''ClassificationModel'')]))
   \<and> add_prediction
        \<lparr>predictions = [PPrediction (PDict [(''image_path'', PStr ''img.jpg''),
                            (''prediction_type'', PStr ''ObjectDetectionModel'')])],
         base_image_path = PStr ''img.jpg'',
         base_prediction_type = PStr ''ObjectDetectionModel''\<rparr>
        (PPrediction (PDict [(''top'', PStr ''cat''), (''confidence'', PStr ''0.9''),
            (''image_path'', PStr ''other.jpg''),
            (''prediction_type'', PStr ''ClassificationModel'')])) [] =
       (Inr (),
        \<lparr>predictions = [PPrediction (PDict [(''image_path'', PStr ''img.jpg''),
                            (''prediction_type'', PStr ''ObjectDetectionModel'')]),
                         PPrediction (PDict [(''top'', PStr ''cat''), (''confidence'', PStr ''0.9''),
                            (''image_path'', PStr ''other.jpg''),
                            (''prediction_type'', PStr ''ClassificationModel'')])],
         base_image_path = PStr ''img.jpg'',
         base_prediction_type = PStr ''ObjectDetectionModel''\<rparr>,
        [''This prediction is a different type (ClassificationModel) than the prediction group base type (ObjectDetectionModel)'',
         ''This prediction has a different image path (other.jpg) than the prediction group base image path (img.jpg)''])"
proof -
  have h: "Prediction_init (PDict [(''top'', PStr ''cat''), (''confidence'', PStr ''0.9'')])
       (PStr ''other.jpg'') (PStr ''ClassificationModel'') =
     Inr (PPrediction (PDict [(''top'', PStr ''cat''), (''confidence'', PStr ''0.9''),
            (''image_path'', PStr ''other.jpg''),
            (''prediction_type'', PStr ''ClassificationModel'')]))"
    by (simp add: Prediction_init_def ebind_def)
  have n: "PredictionGroup_len
        \<lparr>predictions = [PPrediction (PDict [(''image_path'', PStr ''img.jpg''),
                            (''prediction_type'', PStr ''ObjectDetectionModel'')])],
         base_image_path = PStr ''img.jpg'',
         base_prediction_type = PStr ''ObjectDetectionModel''\<rparr> > 0"
    by (simp add: PredictionGroup_len_def)
  from add_prediction_other_type [OF h n, of "''ObjectDetectionModel''" "''img.jpg''" "[]"]
  have "add_prediction
        \<lparr>predictions = [PPrediction (PDict [(''image_path'', PStr ''img.jpg''),
                            (''prediction_type'', PStr ''ObjectDetectionModel'')])],
         base_image_path = PStr ''img.jpg'',
         base_prediction_type = PStr ''ObjectDetectionModel''\<rparr>
        (PPrediction (PDict [(''top'', PStr ''cat''), (''confidence'', PStr ''0.9''),
            (''image_path'', PStr ''other.jpg''),
            (''prediction_type'', PStr ''ClassificationModel'')])) [] =
       (Inr (),
        \<lparr>predictions = [PPrediction (PDict [(''image_path'', PStr ''img.jpg''),
                            (''prediction_type'', PStr ''ObjectDetectionModel'')]),
                         PPrediction (PDict [(''top'', PStr ''cat''), (''confidence'', PStr ''0.9''),
                            (''image_path'', PStr ''other.jpg''),
                            (''prediction_type'', PStr ''ClassificationModel'')])],
         base_image_path = PStr ''img.jpg'',
         base_prediction_type = PStr ''ObjectDetectionModel''\<rparr>,
        [''This prediction is a different type (ClassificationModel) than the prediction group base type (ObjectDetectionModel)'',
         ''This prediction has a different image path (other.jpg) than the prediction group base image path (img.jpg)''])"
    by simp
  with h show ?thesis by (rule conjI)
qed

section \<open>The tags of a prediction (claim C7)\<close>

text \<open>
  Claim C7: for every prediction \<open>p\<close> constructed from a field mapping, an image path and a
  prediction type, \<^verbatim>\<open>p.json()['image_path']\<close> is that image path and
  \<^verbatim>\<open>p.json()['prediction_type']\<close> is that prediction type, whatever keys the mapping
  had. Construction succeeds on every dictionary.
\<close>

theorem Prediction_json_tags:
  "(\<exists>p. Prediction_init (PDict d) image_path prediction_type = Inr p) \<and>
   (\<forall>p. Prediction_init json_prediction image_path prediction_type = Inr p \<longrightarrow>
      (\<exists>j. Prediction_json p = Inr j
         \<and> py_getitem j (PStr ''image_path'') = Inr image_path
         \<and> py_getitem j (PStr ''prediction_type'') = Inr prediction_type))"
proof (intro conjI allI impI)
  show "\<exists>p. Prediction_init (PDict d) image_path prediction_type = Inr p"
    by (simp add: Prediction_init_dict)
next
  fix p
  assume "Prediction_init json_prediction image_path prediction_type = Inr p"
  then obtain d' where p: "p = PPrediction (PDict (dict_set ''prediction_type'' prediction_type
                                (dict_set ''image_path'' image_path d')))"
    by (rule Prediction_init_Inr)
  show "\<exists>j. Prediction_json p = Inr j
         \<and> py_getitem j (PStr ''image_path'') = Inr image_path
         \<and> py_getitem j (PStr ''prediction_type'') = Inr prediction_type"
    unfolding p by (simp add: map_of_dict_set)
qed

text \<open>The theorem on a mapping that already has an \<^verbatim>\<open>image_path\<close>.\<close>

theorem Prediction_json_tags_witness:
  "Prediction_init (PDict [(''x'', PInt 10), (''image_path'', PStr ''old.jpg'')])
       (PStr ''img.jpg'') OBJECT_DETECTION_MODEL =
     Inr (PPrediction (PDict [(''x'', PInt 10), (''image_path'', PStr ''img.jpg''),
                              (''prediction_type'', OBJECT_DETECTION_MODEL)]))
   \<and> (\<exists>j. Prediction_json (PPrediction (PDict [(''x'', PInt 10),
                              (''image_path'', PStr ''img.jpg''),
                              (''prediction_type'', OBJECT_DETECTION_MODEL)])) = Inr j
         \<and> py_getitem j (PStr ''image_path'') = Inr (PStr ''img.jpg'')
         \<and> py_getitem j (PStr ''prediction_type'') = Inr OBJECT_DETECTION_MODEL)"
proof -
  have h: "Prediction_init (PDict [(''x'', PInt 10), (''image_path'', PStr ''old.jpg'')])
       (PStr ''img.jpg'') OBJECT_DETECTION_MODEL =
     Inr (PPrediction (PDict [(''x'', PInt 10), (''image_path'', PStr ''img.jpg''),
                              (''prediction_type'', OBJECT_DETECTION_MODEL)]))"
    by (simp add: Prediction_init_def ebind_def)
  from h Prediction_json_tags [THEN conjunct2, rule_format, OF h] show ?thesis by (rule conjI)
qed

section \<open>Drawing an annotation (claim C9)\<close>




section \<open>An error of \<open>add_prediction\<close> leaves the group as it was (claim C10)\<close>

text \<open>
  Claim C10: for every group and every value, if \<open>add_prediction\<close> raises, the group (its
  members, its base image path and its base prediction type) is as before the call. The
  only assignments of the method come after the last operation that can raise.
\<close>

theorem add_prediction_error_keeps_group:
  "fst (add_prediction self v ws) = Inl e \<Longrightarrow> fst (snd (add_prediction self v ws)) = self"
  by (auto simp: add_prediction_def Let_def split: sum.splits prod.splits if_splits)

text \<open>The theorem on the empty group, for a dictionary that is not a prediction.\<close>

theorem add_prediction_error_keeps_group_witness:
  "fst (add_prediction
          \<lparr>predictions = [], base_image_path = PStr '''', base_prediction_type = PStr ''''\<rparr>
          (PDict [(''prediction_type'', OBJECT_DETECTION_MODEL)]) []) =
     Inl (PyException ''Cannot add type dict to PredictionGroup'')
   \<and> fst (snd (add_prediction
          \<lparr>predictions = [], base_image_path = PStr '''', base_prediction_type = PStr ''''\<rparr>
          (PDict [(''prediction_type'', OBJECT_DETECTION_MODEL)]) [])) =
     \<lparr>predictions = [], base_image_path = PStr '''', base_prediction_type = PStr ''''\<rparr>"
proof -
  have h: "fst (add_prediction
          \<lparr>predictions = [], base_image_path = PStr '''', base_prediction_type = PStr ''''\<rparr>
          (PDict [(''prediction_type'', OBJECT_DETECTION_MODEL)]) []) =
     Inl (PyException ''Cannot add type dict to PredictionGroup'')"
    by (simp add: add_prediction_def PredictionGroup_exception_check_def PREDICTION_OBJECT_def)
  from h add_prediction_error_keeps_group [OF h] show ?thesis by (rule conjI)
qed

section \<open>Which values a group rejects\<close>

text \<open>
  \<open>add_prediction\<close> rejects every value whose type is not \<^verbatim>\<open>Prediction\<close>, \<^verbatim>\<open>None\<close>
  included (subscripting \<^verbatim>\<open>None\<close> raises before the member check is reached): the call
  raises, and the group and the warnings are as before.
\<close>

theorem add_prediction_rejects_other_values:
  "type_name v \<noteq> PREDICTION_OBJECT \<Longrightarrow> \<exists>e. add_prediction self v ws = (Inl e, self, ws)"
proof (cases v)
  case (PDict d)
  then show ?thesis
    by (cases "map_of d ''prediction_type''")
       (simp_all add: add_prediction_def PredictionGroup_exception_check_def PREDICTION_OBJECT_def)
qed (simp_all add: add_prediction_def PREDICTION_OBJECT_def)

theorem add_prediction_rejects_other_values_witness:
  "type_name PNone \<noteq> PREDICTION_OBJECT
   \<and> (\<exists>e. add_prediction
          \<lparr>predictions = [], base_image_path = PStr '''', base_prediction_type = PStr ''''\<rparr>
          PNone [] =
        (Inl e,
         \<lparr>predictions = [], base_image_path = PStr '''', base_prediction_type = PStr ''''\<rparr>, []))"
proof -
  have h: "type_name PNone \<noteq> PREDICTION_OBJECT" by (simp add: PREDICTION_OBJECT_def)
  from h add_prediction_rejects_other_values [OF h] show ?thesis by (rule conjI)
qed

text \<open>
  The constructor rejects every argument list that holds, at any position, a value other
  than \<^verbatim>\<open>None\<close> whose type is not \<^verbatim>\<open>Prediction\<close>.
\<close>

lemma init_loop_rejects:
  assumes "v \<in> set args" and "v \<noteq> PNone" and "type_name v \<noteq> PREDICTION_OBJECT"
  shows "\<exists>e. fst (PredictionGroup_init_loop index args self ws) = Inl e"
  using assms
proof (induction args arbitrary: index self ws)
  case Nil
  then show ?case by simp
next
  case (Cons a rest)
  show ?case
  proof (cases "v = a")
    case True
    with Cons.prems show ?thesis
      by (auto simp: exception_check_only_type split: sum.splits)
  next
    case False
    with Cons.prems have "v \<in> set rest" by simp
    from Cons.IH [OF this Cons.prems(2,3)] show ?thesis
      by (auto simp: exception_check_only_type split: sum.splits)
  qed
qed

theorem PredictionGroup_init_rejects_other_values:
  "v \<in> set args \<Longrightarrow> v \<noteq> PNone \<Longrightarrow> type_name v \<noteq> PREDICTION_OBJECT
     \<Longrightarrow> \<exists>e. fst (PredictionGroup_init args ws) = Inl e"
  by (simp add: PredictionGroup_init_def init_loop_rejects)

theorem PredictionGroup_init_rejects_other_values_witness:
  "PInt 5 \<in> set [PPrediction (PDict [(''image_path'', PStr ''img.jpg''),
                           (''prediction_type'', OBJECT_DETECTION_MODEL)]), PInt 5]
   \<and> PInt 5 \<noteq> PNone \<and> type_name (PInt 5) \<noteq> PREDICTION_OBJECT
   \<and> (\<exists>e. fst (PredictionGroup_init
          [PPrediction (PDict [(''image_path'', PStr ''img.jpg''),
                           (''prediction_type'', OBJECT_DETECTION_MODEL)]), PInt 5] []) = Inl e)"
proof -
  have a: "PInt 5 \<in> set [PPrediction (PDict [(''image_path'', PStr ''img.jpg''),
                           (''prediction_type'', OBJECT_DETECTION_MODEL)]), PInt 5]" by simp
  have b: "PInt 5 \<noteq> PNone" by simp
  have c: "type_name (PInt 5) \<noteq> PREDICTION_OBJECT" by (simp add: PREDICTION_OBJECT_def)
  from a b c PredictionGroup_init_rejects_other_values [OF a b c] show ?thesis by blast
qed

end
